theory Spec2Isabelle
  imports Main "HOL-Library.Sublist"
begin

section \<open>Strings, dates and errors\<close>

text \<open>
  The program is a single Flask module, \<^verbatim>\<open>member_app.py\<close>, bound to one SQLite table.
  A Python \<^verbatim>\<open>str\<close> is a sequence of Unicode code points, so a string is a list of
  code points here: the wildcard \<^verbatim>\<open>_\<close> of a LIKE pattern and \<^verbatim>\<open>str.strip\<close> both count
  code points, not bytes. \<open>lit\<close> turns an ASCII literal into such a string. The strings
  of a request are decoded from UTF-8, so no surrogate occurs in them.
\<close>

type_synonym str = "nat list"

definition lit :: "string \<Rightarrow> str" where
  "lit s = map of_char s"

text \<open>
  A \<^verbatim>\<open>datetime.date\<close> is its proleptic Gregorian ordinal (\<^verbatim>\<open>date.toordinal()\<close>):
  day 1 is 0001-01-01 and the last date, 9999-12-31, is day 3652059. Comparison of dates
  is comparison of ordinals. Adding a \<^verbatim>\<open>timedelta\<close> adds days and raises
  \<^verbatim>\<open>OverflowError\<close> when the result leaves the range of the type.
\<close>

type_synonym date = int

datatype error = OverflowError | ValueError | OperationalError

definition MAXORDINAL :: int where
  "MAXORDINAL = 3652059"

definition valid_date :: "date \<Rightarrow> bool" where
  "valid_date d = (1 \<le> d \<and> d \<le> MAXORDINAL)"

definition date_add :: "date \<Rightarrow> int \<Rightarrow> error + date" where
  \<comment> \<open>\<^verbatim>\<open>date.__add__(timedelta(days=n))\<close>\<close>
  "date_add d n = (let o' = d + n in if 0 < o' \<and> o' \<le> MAXORDINAL then Inr o' else Inl OverflowError)"

section \<open>Utilities\<close>

text \<open>
  \<^verbatim>\<open>DAYS_MAP = {"..": 30, "..": 90, "..": 365, "..": 14}\<close>: the four keys are the Korean
  names of the membership classes (monthly, quarterly, yearly, garden box only), written
  here by their code points.
\<close>

definition monthly :: str where
  "monthly = [50900, 44036]"

definition quarterly :: str where
  "quarterly = [48516, 44592]"

definition yearly :: str where
  "yearly = [50672, 44036]"

definition garden_box_only :: str where
  "garden_box_only = [49345, 51088, 53571, 48173, 47564]"

definition DAYS_MAP :: "(str \<times> int) list" where
  "DAYS_MAP = [(monthly, 30), (quarterly, 90), (yearly, 365), (garden_box_only, 14)]"

text \<open>
  \<^verbatim>\<open>parse_date\<close> returns \<^verbatim>\<open>None\<close> for a missing or empty string and for every string on
  which \<^verbatim>\<open>datetime.strptime(s, "%Y-%m-%d")\<close> raises. The library parser is a parameter
  of the model: \<open>Inl\<close> is the exception it raises, \<open>Inr\<close> the date it returns.
\<close>

definition parse_date :: "(str \<Rightarrow> error + date) \<Rightarrow> str option \<Rightarrow> date option" where
  "parse_date strptime s =
     (case s of
        None \<Rightarrow> None
      | Some t \<Rightarrow>
          if t = [] then None
          else (case strptime t of Inl e \<Rightarrow> None | Inr d \<Rightarrow> Some d))"

definition auto_expiry :: "date option \<Rightarrow> str \<Rightarrow> error + date option" where
  "auto_expiry join_date membership_type =
     (case join_date of
        None \<Rightarrow> Inr None
      | Some jd \<Rightarrow>
          (case map_of DAYS_MAP membership_type of
             None \<Rightarrow> Inr None
           | Some days \<Rightarrow>
               if days \<noteq> 0
               then (case date_add jd days of Inl e \<Rightarrow> Inl e | Inr d \<Rightarrow> Inr (Some d))
               else Inr None))"

text \<open>
  \<^verbatim>\<open>(x or "")\<close> on an optional string, \<^verbatim>\<open>str.isspace\<close> on one code point, and
  \<^verbatim>\<open>str.strip()\<close>.
\<close>

definition or_empty :: "str option \<Rightarrow> str" where
  "or_empty s = (case s of None \<Rightarrow> [] | Some t \<Rightarrow> t)"

definition isspace :: "nat \<Rightarrow> bool" where
  "isspace c =
     ((9 \<le> c \<and> c \<le> 13) \<or> (28 \<le> c \<and> c \<le> 32) \<or> c = 133 \<or> c = 160 \<or> c = 5760 \<or>
      (8192 \<le> c \<and> c \<le> 8202) \<or> c = 8232 \<or> c = 8233 \<or> c = 8239 \<or> c = 8287 \<or> c = 12288)"

definition strip :: "str \<Rightarrow> str" where
  "strip s = dropWhile isspace (rev (dropWhile isspace (rev s)))"

section \<open>The model: one table of members\<close>

record datetime =
  dt_date :: date
  dt_hour :: nat
  dt_minute :: nat
  dt_second :: nat

record member =
  m_id :: nat
  m_name :: str
  m_contact :: "str option"
  m_membership_type :: str
  m_join_date :: date
  m_expiry_date :: "date option"
  m_source :: "str option"
  m_note :: "str option"
  m_created_at :: "datetime option"
  m_updated_at :: "datetime option"

text \<open>
  \<^verbatim>\<open>request.args\<close> as the filter reads it: each parameter is a string or missing
  (\<^verbatim>\<open>request.args.get\<close> returns \<^verbatim>\<open>None\<close>).
\<close>

record args =
  a_q :: "str option"
  a_membership_type :: "str option"
  a_expired :: "str option"
  a_join_from :: "str option"
  a_join_to :: "str option"
  a_exp_from :: "str option"
  a_exp_to :: "str option"

definition no_args :: args where
  "no_args = \<lparr>a_q = None, a_membership_type = None, a_expired = None, a_join_from = None,
     a_join_to = None, a_exp_from = None, a_exp_to = None\<rparr>"

section \<open>SQL conditions\<close>

text \<open>
  A condition of a WHERE clause has three values: true, false and NULL (\<open>None\<close>); a row
  is selected when the condition is true. A comparison with a NULL column is NULL,
  \<^verbatim>\<open>IS NULL\<close> never is.
\<close>

type_synonym sql_bool = "bool option"

fun or2 :: "sql_bool \<Rightarrow> sql_bool \<Rightarrow> sql_bool" where
  "or2 (Some True) b = Some True"
| "or2 a (Some True) = Some True"
| "or2 None b = None"
| "or2 a None = None"
| "or2 (Some False) (Some False) = Some False"

fun and2 :: "sql_bool \<Rightarrow> sql_bool \<Rightarrow> sql_bool" where
  "and2 (Some False) b = Some False"
| "and2 a (Some False) = Some False"
| "and2 None b = None"
| "and2 a None = None"
| "and2 (Some True) (Some True) = Some True"

text \<open>\<open>sql_or\<close> and \<open>sql_and\<close> are SQLAlchemy's \<^verbatim>\<open>or_\<close> and \<^verbatim>\<open>and_\<close>.\<close>

definition sql_or :: "sql_bool list \<Rightarrow> sql_bool" where
  "sql_or cs = foldr or2 cs (Some False)"

definition sql_and :: "sql_bool list \<Rightarrow> sql_bool" where
  "sql_and cs = foldr and2 cs (Some True)"

definition is_null :: "'a option \<Rightarrow> sql_bool" where
  "is_null x = Some (x = None)"

definition is_not_null :: "'a option \<Rightarrow> sql_bool" where
  "is_not_null x = Some (x \<noteq> None)"

definition col_eq :: "'a option \<Rightarrow> 'a \<Rightarrow> sql_bool" where
  "col_eq x v = (case x of None \<Rightarrow> None | Some y \<Rightarrow> Some (y = v))"

definition col_ge :: "date option \<Rightarrow> date \<Rightarrow> sql_bool" where
  "col_ge x v = (case x of None \<Rightarrow> None | Some y \<Rightarrow> Some (v \<le> y))"

definition col_le :: "date option \<Rightarrow> date \<Rightarrow> sql_bool" where
  "col_le x v = (case x of None \<Rightarrow> None | Some y \<Rightarrow> Some (y \<le> v))"

definition col_lt :: "date option \<Rightarrow> date \<Rightarrow> sql_bool" where
  "col_lt x v = (case x of None \<Rightarrow> None | Some y \<Rightarrow> Some (y < v))"

text \<open>
  \<^verbatim>\<open>column.ilike(pattern)\<close> is rendered for SQLite as
  \<^verbatim>\<open>lower(column) LIKE lower(pattern)\<close>. SQLite's \<^verbatim>\<open>lower\<close> folds the ASCII letters only
  and keeps the length of its argument. In a LIKE pattern \<^verbatim>\<open>%\<close> (code 37) matches any run
  of characters, \<^verbatim>\<open>_\<close> (code 95) any single character, and every other character itself;
  no escape character is set.

  LIKE reads its pattern and its operand as the engine's matcher reads UTF-8 text
  (\<open>like_text\<close>): up to the first NUL character (code 0), and with the two code points
  U+FFFE and U+FFFF read as U+FFFD. Before it matches, LIKE refuses a pattern of more
  than 50000 bytes, counted on the whole UTF-8 encoding of the pattern
  (\<open>like_pattern_too_complex\<close>); the refusal is the error of the query that evaluates the
  condition (\<open>query_all\<close> below).
\<close>

definition sql_lower :: "str \<Rightarrow> str" where
  "sql_lower s = map (\<lambda>c. if 65 \<le> c \<and> c \<le> 90 then c + 32 else c) s"

fun like_match :: "str \<Rightarrow> str \<Rightarrow> bool" where
  "like_match [] [] = True"
| "like_match [] (c # cs) = False"
| "like_match (p # ps) [] = (p = 37 \<and> like_match ps [])"
| "like_match (p # ps) (c # cs) =
     (if p = 37 then like_match ps (c # cs) \<or> like_match (p # ps) cs
      else (p = 95 \<or> p = c) \<and> like_match ps cs)"

definition like_char :: "nat \<Rightarrow> nat" where
  "like_char c = (if c = 65534 \<or> c = 65535 then 65533 else c)"

definition like_text :: "str \<Rightarrow> str" where
  "like_text s = map like_char (takeWhile (\<lambda>c. c \<noteq> 0) s)"



definition ilike :: "str option \<Rightarrow> str \<Rightarrow> sql_bool" where
  "ilike x pattern =
     (case x of
        None \<Rightarrow> None
      | Some y \<Rightarrow> Some (like_match (like_text (sql_lower pattern)) (like_text (sql_lower y))))"

definition query_filter :: "(member \<Rightarrow> sql_bool) \<Rightarrow> member list \<Rightarrow> member list" where
  \<comment> \<open>\<^verbatim>\<open>query.filter(condition)\<close>\<close>
  "query_filter cond query = filter (\<lambda>m. cond m = Some True) query"

section \<open>The query filter\<close>

text \<open>
  \<^verbatim>\<open>apply_filters(query)\<close>: the parameters are read and stripped, the four date bounds
  are parsed, and one \<^verbatim>\<open>filter\<close> per supplied criterion is chained onto the query.
  \<open>today\<close> is the value of \<^verbatim>\<open>date.today()\<close>. A date object is always truthy, so
  \<^verbatim>\<open>if join_from:\<close> tests that the bound parsed.
\<close>

definition apply_filters ::
  "(str \<Rightarrow> error + date) \<Rightarrow> date \<Rightarrow> args \<Rightarrow> member list \<Rightarrow> member list" where
  "apply_filters strptime today args query0 =
     (let q = strip (or_empty (a_q args));
          mtype = strip (or_empty (a_membership_type args));
          expired = strip (or_empty (a_expired args));
          join_from = parse_date strptime (a_join_from args);
          join_to = parse_date strptime (a_join_to args);
          exp_from = parse_date strptime (a_exp_from args);
          exp_to = parse_date strptime (a_exp_to args);
          query1 =
            (if q \<noteq> [] then
               (let like = [37] @ q @ [37] in
                query_filter
                  (\<lambda>m. sql_or [ilike (Some (m_name m)) like, ilike (m_contact m) like,
                            ilike (m_source m) like, ilike (m_note m) like])
                  query0)
             else query0);
          query2 =
            (if mtype \<noteq> [] then
               query_filter (\<lambda>m. col_eq (Some (m_membership_type m)) mtype) query1
             else query1);
          query3 =
            (if expired = lit ''active'' then
               query_filter
                 (\<lambda>m. sql_or [is_null (m_expiry_date m), col_ge (m_expiry_date m) today]) query2
             else if expired = lit ''expired'' then
               query_filter
                 (\<lambda>m. sql_and [is_not_null (m_expiry_date m), col_lt (m_expiry_date m) today])
                 query2
             else query2);
          query4 =
            (case join_from of
               Some d \<Rightarrow> query_filter (\<lambda>m. col_ge (Some (m_join_date m)) d) query3
             | None \<Rightarrow> query3);
          query5 =
            (case join_to of
               Some d \<Rightarrow> query_filter (\<lambda>m. col_le (Some (m_join_date m)) d) query4
             | None \<Rightarrow> query4);
          query6 =
            (case exp_from of
               Some d \<Rightarrow> query_filter (\<lambda>m. col_ge (m_expiry_date m) d) query5
             | None \<Rightarrow> query5);
          query7 =
            (case exp_to of
               Some d \<Rightarrow> query_filter (\<lambda>m. col_le (m_expiry_date m) d) query6
             | None \<Rightarrow> query6)
      in query7)"




text \<open>
  The WHERE clause that the chain of filters amounts to, criterion by criterion, as a
  predicate on one row (\<open>apply_filters_where\<close> below proves that it is). It serves the
  proofs; the theorems about the filter are stated on \<open>apply_filters\<close>.
\<close>

definition text_cond :: "str \<Rightarrow> member \<Rightarrow> bool" where
  "text_cond q m =
     (if q = [] then True
      else sql_or [ilike (Some (m_name m)) ([37] @ q @ [37]),
                   ilike (m_contact m) ([37] @ q @ [37]),
                   ilike (m_source m) ([37] @ q @ [37]),
                   ilike (m_note m) ([37] @ q @ [37])] = Some True)"

definition class_cond :: "str \<Rightarrow> member \<Rightarrow> bool" where
  "class_cond mtype m = (if mtype = [] then True else m_membership_type m = mtype)"

definition state_cond :: "date \<Rightarrow> str \<Rightarrow> member \<Rightarrow> bool" where
  "state_cond today expired m =
     (if expired = lit ''active''
      then (case m_expiry_date m of None \<Rightarrow> True | Some d \<Rightarrow> today \<le> d)
      else if expired = lit ''expired''
      then (case m_expiry_date m of None \<Rightarrow> False | Some d \<Rightarrow> d < today)
      else True)"

definition bound_cond :: "date option \<Rightarrow> (date \<Rightarrow> date \<Rightarrow> bool) \<Rightarrow> date option \<Rightarrow> bool" where
  "bound_cond bound rel x =
     (case bound of
        None \<Rightarrow> True
      | Some b \<Rightarrow> (case x of None \<Rightarrow> False | Some d \<Rightarrow> rel b d))"

definition where_clause :: "(str \<Rightarrow> error + date) \<Rightarrow> date \<Rightarrow> args \<Rightarrow> member \<Rightarrow> bool" where
  "where_clause strptime today args m =
     (text_cond (strip (or_empty (a_q args))) m \<and>
      class_cond (strip (or_empty (a_membership_type args))) m \<and>
      state_cond today (strip (or_empty (a_expired args))) m \<and>
      bound_cond (parse_date strptime (a_join_from args)) (\<le>) (Some (m_join_date m)) \<and>
      bound_cond (parse_date strptime (a_join_to args)) (\<ge>) (Some (m_join_date m)) \<and>
      bound_cond (parse_date strptime (a_exp_from args)) (\<le>) (m_expiry_date m) \<and>
      bound_cond (parse_date strptime (a_exp_to args)) (\<ge>) (m_expiry_date m))"


section \<open>The routes\<close>

text \<open>
  The state the routes share is the table, in the order of its row ids, and the queue of
  flashed notices that the next rendered page shows and clears. A route returns the new
  state and its response; an exception that leaves the view function is \<open>Inl\<close>, and
  nothing was committed then.
\<close>

record state =
  db_members :: "member list"
  flashes :: "str list"

record form =
  f_name :: "str option"
  f_contact :: "str option"
  f_membership_type :: "str option"
  f_join_date :: "str option"
  f_expiry_date :: "str option"
  f_source :: "str option"
  f_note :: "str option"

datatype response =
    Redirect_index "args option"
  | Render_index "member list" date "str list"
  | Abort_404
  | Send_file str

definition flash :: "str \<Rightarrow> state \<Rightarrow> state" where
  "flash msg st = st\<lparr>flashes := flashes st @ [msg]\<rparr>"

text \<open>The three notices of the source, by their code points.\<close>

definition msg_required :: str where
  "msg_required = [51060, 47492, 44, 32, 47716, 48260, 49901, 44, 32, 44032, 51077, 51068,
     51008, 32, 54596, 49688, 51077, 45768, 45796, 46]"

definition msg_registered :: str where
  "msg_registered = [46321, 47197, 46104, 50632, 49845, 45768, 45796, 46]"

definition msg_deleted :: str where
  "msg_deleted = [49325, 51228, 46104, 50632, 49845, 45768, 45796, 46]"

definition none_if_empty :: "str \<Rightarrow> str option" where
  \<comment> \<open>\<^verbatim>\<open>s or None\<close>\<close>
  "none_if_empty s = (if s = [] then None else Some s)"

definition next_id :: "member list \<Rightarrow> nat" where
  \<comment> \<open>the row id SQLite gives an inserted row: one more than the largest in the table\<close>
  "next_id ms = Suc (fold max (map m_id ms) 0)"

text \<open>
  The POST branch of \<^verbatim>\<open>index\<close>. The expiry date is computed before the required
  fields are checked, as in the source; \<^verbatim>\<open>expiry_input or auto_expiry(..)\<close> calls
  \<^verbatim>\<open>auto_expiry\<close> only when no expiry date was entered. \<open>now\<close> is \<^verbatim>\<open>datetime.utcnow()\<close>,
  the default of both timestamps.
\<close>

definition index_post ::
  "(str \<Rightarrow> error + date) \<Rightarrow> datetime \<Rightarrow> args \<Rightarrow> form \<Rightarrow> state \<Rightarrow> error + state \<times> response"
  where
  "index_post strptime now args form st =
     (let name = strip (or_empty (f_name form));
          contact = strip (or_empty (f_contact form));
          membership_type = strip (or_empty (f_membership_type form));
          join_date = parse_date strptime (f_join_date form);
          expiry_input = parse_date strptime (f_expiry_date form)
      in case (case expiry_input of
                 Some e \<Rightarrow> Inr (Some e)
               | None \<Rightarrow> auto_expiry join_date membership_type) of
           Inl err \<Rightarrow> Inl err
         | Inr expiry_date \<Rightarrow>
             (let source = strip (or_empty (f_source form));
                  note = strip (or_empty (f_note form))
              in case join_date of
                   None \<Rightarrow> Inr (flash msg_required st, Redirect_index None)
                 | Some jd \<Rightarrow>
                     if name = [] \<or> membership_type = []
                     then Inr (flash msg_required st, Redirect_index None)
                     else
                       (let m = \<lparr>m_id = next_id (db_members st), m_name = name,
                                  m_contact = none_if_empty contact,
                                  m_membership_type = membership_type, m_join_date = jd,
                                  m_expiry_date = expiry_date,
                                  m_source = none_if_empty source, m_note = none_if_empty note,
                                  m_created_at = Some now, m_updated_at = Some now\<rparr>
                        in Inr (flash msg_registered (st\<lparr>db_members := db_members st @ [m]\<rparr>),
                                Redirect_index (Some args)))))"

text \<open>The GET branch of \<^verbatim>\<open>index\<close>: the filtered listing, newest id first.\<close>



text \<open>
  \<^verbatim>\<open>delete_member\<close>. The route's \<^verbatim>\<open>int\<close> converter accepts every run of digits, so
  \<open>member_id\<close> is any natural number. \<^verbatim>\<open>get_or_404\<close> binds it as the parameter of a
  SELECT: an id above the largest SQLite integer, 2^63 - 1, makes the driver raise
  \<^verbatim>\<open>OverflowError\<close> before any row is looked up. Otherwise \<^verbatim>\<open>get_or_404\<close> aborts with 404
  when no row has the id.
\<close>

definition SQLITE_MAX_INTEGER :: nat where
  "SQLITE_MAX_INTEGER = 9223372036854775807"

definition delete_member :: "args \<Rightarrow> nat \<Rightarrow> state \<Rightarrow> error + state \<times> response" where
  "delete_member args member_id st =
     (if SQLITE_MAX_INTEGER < member_id then Inl OverflowError
      else
        (case find (\<lambda>m. m_id m = member_id) (db_members st) of
           None \<Rightarrow> Inr (st, Abort_404)
         | Some m \<Rightarrow>
             Inr (flash msg_deleted (st\<lparr>db_members := remove1 m (db_members st)\<rparr>),
                  Redirect_index (Some args))))"

section \<open>The CSV export\<close>

text \<open>
  The calendar of \<^verbatim>\<open>datetime\<close>, for \<^verbatim>\<open>isoformat\<close>: the ordinal of a year, month and day
  and back. A month indexes the two tables from 1, as in the library.
\<close>

definition DAYS_IN_MONTH :: "int list" where
  "DAYS_IN_MONTH = [-1, 31, 28, 31, 30, 31, 30, 31, 31, 30, 31, 30, 31]"

definition DAYS_BEFORE_MONTH :: "int list" where
  "DAYS_BEFORE_MONTH = [-1, 0, 31, 59, 90, 120, 151, 181, 212, 243, 273, 304, 334]"

definition is_leap :: "int \<Rightarrow> bool" where
  "is_leap year = (year mod 4 = 0 \<and> (year mod 400 = 0 \<or> year mod 100 \<noteq> 0))"

definition days_before_year :: "int \<Rightarrow> int" where
  "days_before_year year = (let y = year - 1 in y * 365 + y div 4 - y div 100 + y div 400)"

definition days_in_month :: "int \<Rightarrow> int \<Rightarrow> int" where
  "days_in_month year month =
     (if month = 2 \<and> is_leap year then 29 else DAYS_IN_MONTH ! nat month)"

definition days_before_month :: "int \<Rightarrow> int \<Rightarrow> int" where
  "days_before_month year month =
     DAYS_BEFORE_MONTH ! nat month + (if month > 2 \<and> is_leap year then 1 else 0)"

definition ymd2ord :: "int \<Rightarrow> int \<Rightarrow> int \<Rightarrow> date" where
  "ymd2ord year month day = days_before_year year + days_before_month year month + day"

definition ord2ymd :: "date \<Rightarrow> int \<times> int \<times> int" where
  "ord2ymd ordinal =
     (let n = ordinal - 1;
          n400 = n div 146097; n = n mod 146097;
          year = n400 * 400 + 1;
          n100 = n div 36524; n = n mod 36524;
          n4 = n div 1461; n = n mod 1461;
          n1 = n div 365; n = n mod 365;
          year = year + n100 * 100 + n4 * 4 + n1
      in if n1 = 4 \<or> n100 = 4 then (year - 1, 12, 31)
         else
           (let leapyear = (n1 = 3 \<and> (n100 = 3 \<or> n4 \<noteq> 24));
                month = (n + 50) div 32;
                preceding = DAYS_BEFORE_MONTH ! nat month + (if month > 2 \<and> leapyear then 1 else 0)
            in if preceding > n
               then (let month' = month - 1;
                         preceding' = preceding -
                           (DAYS_IN_MONTH ! nat month' + (if month' = 2 \<and> leapyear then 1 else 0))
                     in (year, month', n - preceding' + 1))
               else (year, month, n - preceding + 1)))"

fun str_of_nat :: "nat \<Rightarrow> str" where
  "str_of_nat n = (if n < 10 then [48 + n] else str_of_nat (n div 10) @ [48 + n mod 10])"

declare str_of_nat.simps [simp del]

definition zfill :: "nat \<Rightarrow> str \<Rightarrow> str" where
  "zfill width s = replicate (width - length s) 48 @ s"

definition date_isoformat :: "date \<Rightarrow> str" where
  "date_isoformat d =
     (case ord2ymd d of
        (y, m, dd) \<Rightarrow>
          zfill 4 (str_of_nat (nat y)) @ [45] @ zfill 2 (str_of_nat (nat m)) @ [45] @
          zfill 2 (str_of_nat (nat dd)))"

definition datetime_isoformat :: "datetime \<Rightarrow> str" where
  \<comment> \<open>\<^verbatim>\<open>isoformat(timespec='seconds')\<close>\<close>
  "datetime_isoformat t =
     date_isoformat (dt_date t) @ [84] @ zfill 2 (str_of_nat (dt_hour t)) @ [58] @
     zfill 2 (str_of_nat (dt_minute t)) @ [58] @ zfill 2 (str_of_nat (dt_second t))"

text \<open>
  \<^verbatim>\<open>str.replace(old, new)\<close> for a non-empty \<open>old\<close>: every occurrence, left to right,
  without overlap.
\<close>

function replace :: "str \<Rightarrow> str \<Rightarrow> str \<Rightarrow> str" where
  "replace old new [] = []"
| "replace old new (c # cs) =
     (if old \<noteq> [] \<and> prefix old (c # cs)
      then new @ replace old new (drop (length old) (c # cs))
      else c # replace old new cs)"
  by pat_completeness auto
termination
  by (relation "measure (\<lambda>(old, new, s). length s)") (auto simp: neq_Nil_conv)

declare replace.simps [simp del]

text \<open>
  \<^verbatim>\<open>csv.writer\<close> with its default dialect: a field is quoted when it holds the delimiter,
  the quote character or a character of the line terminator, a quote character inside
  it is doubled, fields are joined by commas, and the record ends with CR LF. A cell is
  an integer or a string; an integer is written in decimal.
\<close>

datatype cell = CInt nat | CStr str

fun cell_str :: "cell \<Rightarrow> str" where
  "cell_str (CInt n) = str_of_nat n"
| "cell_str (CStr s) = s"

definition csv_field :: "str \<Rightarrow> str" where
  "csv_field s =
     (if list_ex (\<lambda>c. c = 44 \<or> c = 34 \<or> c = 13 \<or> c = 10) s
      then [34] @ concat (map (\<lambda>c. if c = 34 then [34, 34] else [c]) s) @ [34]
      else s)"

fun join :: "str \<Rightarrow> str list \<Rightarrow> str" where
  "join sep [] = []"
| "join sep [x] = x"
| "join sep (x # y # ys) = x @ sep @ join sep (y # ys)"

definition writerow :: "cell list \<Rightarrow> str" where
  "writerow row =
     (let rec = join [44] (map (\<lambda>c. csv_field (cell_str c)) row)
      in (if row \<noteq> [] \<and> rec = [] then [34, 34] else rec) @ [13, 10])"


text \<open>
  The row of one member, as \<^verbatim>\<open>export_csv\<close> hands it to the writer, and the text of the
  file before it is encoded (UTF-8 with a byte order mark) and sent. The argument of
  \<^verbatim>\<open>replace\<close> in the source is \<^verbatim>\<open>'\\n'\<close>: the two characters backslash (92) and
  \<^verbatim>\<open>n\<close> (110).
\<close>

definition export_row :: "member \<Rightarrow> cell list" where
  "export_row m =
     [CInt (m_id m),
      CStr (m_name m),
      CStr (or_empty (m_contact m)),
      CStr (m_membership_type m),
      CStr (date_isoformat (m_join_date m)),
      CStr (case m_expiry_date m of Some d \<Rightarrow> date_isoformat d | None \<Rightarrow> []),
      CStr (or_empty (m_source m)),
      CStr (replace [92, 110] [32] (or_empty (m_note m))),
      CStr (case m_created_at m of Some t \<Rightarrow> datetime_isoformat t | None \<Rightarrow> []),
      CStr (case m_updated_at m of Some t \<Rightarrow> datetime_isoformat t | None \<Rightarrow> [])]"



section \<open>The library's date parser on ASCII digits\<close>

text \<open>
  \<^verbatim>\<open>datetime.strptime(s, "%Y-%m-%d").date()\<close> on a string whose digits are ASCII: four
  digits, a hyphen, a month \<^verbatim>\<open>1[0-2]|0[1-9]|[1-9]\<close>, a hyphen, a day
  \<^verbatim>\<open>3[01]|[12]\d|0[1-9]|[1-9]| [1-9]\<close>, and nothing after it; the year is at least 1 and
  the day exists in the month. Everything else raises \<^verbatim>\<open>ValueError\<close> here; the library
  also takes decimal digits outside ASCII, which this function does not. The theorems
  below hold for every parser; this one is the parser of the examples, and they apply it
  to ASCII strings only.
\<close>

definition is_digit :: "nat \<Rightarrow> bool" where
  "is_digit c = (48 \<le> c \<and> c \<le> 57)"

definition digit :: "nat \<Rightarrow> int" where
  "digit c = int c - 48"

fun match_Y :: "str \<Rightarrow> (int \<times> str) option" where
  "match_Y (a # b # c # d # rest) =
     (if is_digit a \<and> is_digit b \<and> is_digit c \<and> is_digit d
      then Some (1000 * digit a + 100 * digit b + 10 * digit c + digit d, rest)
      else None)"
| "match_Y s = None"

fun match_hyphen :: "str \<Rightarrow> str option" where
  "match_hyphen (c # rest) = (if c = 45 then Some rest else None)"
| "match_hyphen [] = None"

fun match_m :: "str \<Rightarrow> (int \<times> str) option" where
  "match_m (a # b # rest) =
     (if a = 49 \<and> 48 \<le> b \<and> b \<le> 50 then Some (10 + digit b, rest)
      else if a = 48 \<and> 49 \<le> b \<and> b \<le> 57 then Some (digit b, rest)
      else if 49 \<le> a \<and> a \<le> 57 then Some (digit a, b # rest)
      else None)"
| "match_m [a] = (if 49 \<le> a \<and> a \<le> 57 then Some (digit a, []) else None)"
| "match_m [] = None"

fun match_d :: "str \<Rightarrow> (int \<times> str) option" where
  "match_d (a # b # rest) =
     (if a = 51 \<and> 48 \<le> b \<and> b \<le> 49 then Some (30 + digit b, rest)
      else if 49 \<le> a \<and> a \<le> 50 \<and> is_digit b then Some (10 * digit a + digit b, rest)
      else if a = 48 \<and> 49 \<le> b \<and> b \<le> 57 then Some (digit b, rest)
      else if 49 \<le> a \<and> a \<le> 57 then Some (digit a, b # rest)
      else if a = 32 \<and> 49 \<le> b \<and> b \<le> 57 then Some (digit b, rest)
      else None)"
| "match_d [a] = (if 49 \<le> a \<and> a \<le> 57 then Some (digit a, []) else None)"
| "match_d [] = None"

definition strptime_ymd :: "str \<Rightarrow> error + date" where
  "strptime_ymd s =
     (case match_Y s of
        None \<Rightarrow> Inl ValueError
      | Some (y, s1) \<Rightarrow>
     (case match_hyphen s1 of
        None \<Rightarrow> Inl ValueError
      | Some s2 \<Rightarrow>
     (case match_m s2 of
        None \<Rightarrow> Inl ValueError
      | Some (m, s3) \<Rightarrow>
     (case match_hyphen s3 of
        None \<Rightarrow> Inl ValueError
      | Some s4 \<Rightarrow>
     (case match_d s4 of
        None \<Rightarrow> Inl ValueError
      | Some (d, s5) \<Rightarrow>
          if s5 = [] \<and> 1 \<le> y \<and> d \<le> days_in_month y m then Inr (ymd2ord y m d)
          else Inl ValueError)))))"

section \<open>Example data\<close>

text \<open>
  Two members for the examples: Kim, a monthly member who joined on 2023-12-02 (day
  738856) and whose expiry date is 2024-01-01 (day 738886), and Lee, of a class outside
  the table, who joined on 2024-01-01 and has no expiry date. In the examples today is
  2024-06-01 (day 739038).
\<close>

definition ex_kim :: member where
  "ex_kim = \<lparr>m_id = 1, m_name = lit ''Kim'', m_contact = None, m_membership_type = monthly,
     m_join_date = 738856, m_expiry_date = Some 738886, m_source = None,
     m_note = Some (lit ''pays in cash''), m_created_at = None, m_updated_at = None\<rparr>"

definition ex_lee :: member where
  "ex_lee = \<lparr>m_id = 2, m_name = lit ''Lee'', m_contact = Some (lit ''010-1234''),
     m_membership_type = lit ''VIP'', m_join_date = 738886, m_expiry_date = None,
     m_source = Some (lit ''friend''), m_note = None, m_created_at = None,
     m_updated_at = None\<rparr>"

text \<open>
  A clock reading, 2024-01-01 09:30:00, and a member whose note holds a line feed (code
  10): \<^verbatim>\<open>call\<close>, line feed, \<^verbatim>\<open>back\<close>.
\<close>

definition ex_now :: datetime where
  "ex_now = \<lparr>dt_date = 738886, dt_hour = 9, dt_minute = 30, dt_second = 0\<rparr>"

definition ex_note :: str where
  "ex_note = lit ''call'' @ [10] @ lit ''back''"

definition ex_park :: member where
  "ex_park = \<lparr>m_id = 3, m_name = lit ''Park'', m_contact = None, m_membership_type = monthly,
     m_join_date = 738886, m_expiry_date = Some 738916, m_source = None,
     m_note = Some ex_note, m_created_at = Some ex_now, m_updated_at = Some ex_now\<rparr>"

definition no_form :: form where
  "no_form = \<lparr>f_name = None, f_contact = None, f_membership_type = None, f_join_date = None,
     f_expiry_date = None, f_source = None, f_note = None\<rparr>"

section \<open>The expiry calculator\<close>

lemma map_of_DAYS_MAP_other:
  "c \<noteq> monthly \<Longrightarrow> c \<noteq> quarterly \<Longrightarrow> c \<noteq> yearly \<Longrightarrow> c \<noteq> garden_box_only
   \<Longrightarrow> map_of DAYS_MAP c = None"
  by (simp add: DAYS_MAP_def)

lemma map_of_DAYS_MAP_keys:
  "map_of DAYS_MAP monthly = Some 30"
  "map_of DAYS_MAP quarterly = Some 90"
  "map_of DAYS_MAP yearly = Some 365"
  "map_of DAYS_MAP garden_box_only = Some 14"
  by (simp_all add: DAYS_MAP_def monthly_def quarterly_def yearly_def garden_box_only_def)

text \<open>
  C1 (as the code has it). With no explicit expiry, the calculator returns the join date
  plus 30 days for the monthly class, plus 90 for quarterly, plus 365 for yearly and plus
  14 for garden-box-only, for every join date whose sum is still a date (not after
  9999-12-31); for a class outside the table it returns absent, and for an absent join
  date it returns absent.
\<close>

theorem auto_expiry_table:
  "auto_expiry None c = Inr None \<and>
   (c \<noteq> monthly \<and> c \<noteq> quarterly \<and> c \<noteq> yearly \<and> c \<noteq> garden_box_only
      \<longrightarrow> auto_expiry j c = Inr None) \<and>
   (valid_date J \<and> J + 30 \<le> MAXORDINAL
      \<longrightarrow> auto_expiry (Some J) monthly = Inr (Some (J + 30))) \<and>
   (valid_date J \<and> J + 90 \<le> MAXORDINAL
      \<longrightarrow> auto_expiry (Some J) quarterly = Inr (Some (J + 90))) \<and>
   (valid_date J \<and> J + 365 \<le> MAXORDINAL
      \<longrightarrow> auto_expiry (Some J) yearly = Inr (Some (J + 365))) \<and>
   (valid_date J \<and> J + 14 \<le> MAXORDINAL
      \<longrightarrow> auto_expiry (Some J) garden_box_only = Inr (Some (J + 14)))"
  by (auto simp: auto_expiry_def map_of_DAYS_MAP_other map_of_DAYS_MAP_keys date_add_def
      valid_date_def Let_def split: option.splits)

text \<open>
  The rule at the join date 2024-01-01 (day 738886) and at the class name \<^verbatim>\<open>VIP\<close>, which
  is not a key of the table: the monthly expiry is 2024-01-31 (day 738916).
\<close>

theorem auto_expiry_table_witness:
  "valid_date 738886 \<and> 738886 + 365 \<le> MAXORDINAL \<and>
   lit ''VIP'' \<noteq> monthly \<and> lit ''VIP'' \<noteq> quarterly \<and> lit ''VIP'' \<noteq> yearly \<and>
   lit ''VIP'' \<noteq> garden_box_only \<and>
   auto_expiry None (lit ''VIP'') = Inr None \<and>
   auto_expiry (Some 738886) (lit ''VIP'') = Inr None \<and>
   auto_expiry (Some 738886) monthly = Inr (Some 738916) \<and>
   auto_expiry (Some 738886) quarterly = Inr (Some 738976) \<and>
   auto_expiry (Some 738886) yearly = Inr (Some 739251) \<and>
   auto_expiry (Some 738886) garden_box_only = Inr (Some 738900)"
proof -
  have d: "valid_date 738886" "738886 + 365 \<le> MAXORDINAL"
    by (simp_all add: valid_date_def MAXORDINAL_def)
  have c: "lit ''VIP'' \<noteq> monthly" "lit ''VIP'' \<noteq> quarterly" "lit ''VIP'' \<noteq> yearly"
    "lit ''VIP'' \<noteq> garden_box_only"
    by (simp_all add: lit_def monthly_def quarterly_def yearly_def garden_box_only_def)
  show ?thesis
    using auto_expiry_table [of "lit ''VIP''" "Some 738886" 738886] d c
    by (simp add: MAXORDINAL_def)
qed

text \<open>
  C1 as the specification states it, for every join date, fails at the last date of the
  calendar: for the join date 9999-12-31 and the monthly class the addition raises
  \<^verbatim>\<open>OverflowError\<close> and no date is returned.
\<close>

theorem auto_expiry_overflow_counterexample:
  "valid_date 3652059 \<and> auto_expiry (Some 3652059) monthly = Inl OverflowError"
  by (simp add: auto_expiry_def map_of_DAYS_MAP_keys date_add_def valid_date_def
      MAXORDINAL_def)

section \<open>The query filter as one WHERE clause\<close>

text \<open>
  Each stage of \<open>apply_filters\<close> is a filter by the condition of its criterion, so the
  chain is one filter by their conjunction.
\<close>

lemma strip_Nil [simp]: "strip [] = []"
  by (simp add: strip_def)

lemma or_empty_simps [simp]: "or_empty None = []" "or_empty (Some s) = s"
  by (simp_all add: or_empty_def)

lemma or2_Some [simp]: "or2 (Some a) (Some b) = Some (a \<or> b)"
  by (cases a; cases b) simp_all

lemma and2_Some [simp]: "and2 (Some a) (Some b) = Some (a \<and> b)"
  by (cases a; cases b) simp_all

lemma state_conds:
  "(sql_or [is_null e, col_ge e t] = Some True) =
     (case e of None \<Rightarrow> True | Some d \<Rightarrow> t \<le> d)"
  "(sql_and [is_not_null e, col_lt e t] = Some True) =
     (case e of None \<Rightarrow> False | Some d \<Rightarrow> d < t)"
  by (auto simp: sql_or_def sql_and_def is_null_def is_not_null_def col_ge_def col_lt_def
      split: option.splits)

lemma col_conds:
  "(col_ge e t = Some True) = (case e of None \<Rightarrow> False | Some d \<Rightarrow> t \<le> d)"
  "(col_le e t = Some True) = (case e of None \<Rightarrow> False | Some d \<Rightarrow> d \<le> t)"
  "(col_eq e' v = Some True) = (case e' of None \<Rightarrow> False | Some d \<Rightarrow> d = v)"
  by (auto simp: col_ge_def col_le_def col_eq_def split: option.splits)

lemma stage_text:
  "(if q \<noteq> [] then query_filter
       (\<lambda>m. sql_or [ilike (Some (m_name m)) ([37] @ q @ [37]),
                   ilike (m_contact m) ([37] @ q @ [37]),
                   ilike (m_source m) ([37] @ q @ [37]),
                   ilike (m_note m) ([37] @ q @ [37])]) xs
     else xs)
   = filter (text_cond q) xs"
  by (auto simp: text_cond_def query_filter_def Let_def intro!: filter_cong)

lemma stage_class:
  "(if mtype \<noteq> [] then query_filter (\<lambda>m. col_eq (Some (m_membership_type m)) mtype) xs else xs)
   = filter (class_cond mtype) xs"
  by (auto simp: class_cond_def query_filter_def col_conds intro!: filter_cong)

lemma stage_state:
  "(if expired = lit ''active'' then
       query_filter (\<lambda>m. sql_or [is_null (m_expiry_date m), col_ge (m_expiry_date m) today]) xs
    else if expired = lit ''expired'' then
       query_filter (\<lambda>m. sql_and [is_not_null (m_expiry_date m), col_lt (m_expiry_date m) today]) xs
    else xs) = filter (state_cond today expired) xs"
  by (auto simp: state_cond_def query_filter_def state_conds intro!: filter_cong)

lemma stage_ge:
  "(case b of Some d \<Rightarrow> query_filter (\<lambda>m. col_ge (f m) d) xs | None \<Rightarrow> xs)
   = filter (\<lambda>m. bound_cond b (\<le>) (f m)) xs"
  by (simp add: bound_cond_def query_filter_def col_conds split: option.splits)

lemma stage_le:
  "(case b of Some d \<Rightarrow> query_filter (\<lambda>m. col_le (f m) d) xs | None \<Rightarrow> xs)
   = filter (\<lambda>m. bound_cond b (\<ge>) (f m)) xs"
  by (simp add: bound_cond_def query_filter_def col_conds split: option.splits)

lemma apply_filters_where:
  "apply_filters sp today args ms = filter (where_clause sp today args) ms"
  unfolding apply_filters_def Let_def
  unfolding stage_text stage_class stage_state stage_ge stage_le
  by (simp add: where_clause_def conj_commute conj_left_commute cong: filter_cong)

lemma filter_where_split:
  assumes "\<And>m. where_clause sp today args m = (where_clause sp today args' m \<and> P m)"
  shows "apply_filters sp today args ms = filter P (apply_filters sp today args' ms)"
  by (simp add: apply_filters_where assms cong: filter_cong)

lemma lit_facts [simp]:
  "lit ''active'' \<noteq> []" "lit ''expired'' \<noteq> []" "lit ''active'' \<noteq> lit ''expired''"
  "[] \<noteq> lit ''active''" "[] \<noteq> lit ''expired''" "lit ''expired'' \<noteq> lit ''active''"
  by (simp_all add: lit_def)

lemma where_clause_simps [simp]:
  "where_clause sp today (args\<lparr>a_expired := e\<rparr>) m =
     (text_cond (strip (or_empty (a_q args))) m \<and>
      class_cond (strip (or_empty (a_membership_type args))) m \<and>
      state_cond today (strip (or_empty e)) m \<and>
      bound_cond (parse_date sp (a_join_from args)) (\<le>) (Some (m_join_date m)) \<and>
      bound_cond (parse_date sp (a_join_to args)) (\<ge>) (Some (m_join_date m)) \<and>
      bound_cond (parse_date sp (a_exp_from args)) (\<le>) (m_expiry_date m) \<and>
      bound_cond (parse_date sp (a_exp_to args)) (\<ge>) (m_expiry_date m))"
  by (simp add: where_clause_def)

lemma no_args_all: "apply_filters sp today no_args ms = ms"
  by (simp add: apply_filters_where where_clause_def no_args_def text_cond_def class_cond_def
      state_cond_def bound_cond_def parse_date_def)

text \<open>Evaluation of the parser of the examples.\<close>

lemma parse_2023: "parse_date strptime_ymd (Some (lit ''2023-01-01'')) = Some 738521"
  by (simp add: parse_date_def lit_def strptime_ymd_def is_digit_def digit_def
      days_in_month_def DAYS_IN_MONTH_def ymd2ord_def days_before_year_def
      days_before_month_def DAYS_BEFORE_MONTH_def is_leap_def)

section \<open>The expiry-state criterion\<close>

lemma filter_active:
  assumes "strip (or_empty (a_expired args)) = lit ''active''"
  shows "apply_filters sp today args ms =
     filter (\<lambda>m. case m_expiry_date m of None \<Rightarrow> True | Some d \<Rightarrow> today \<le> d)
       (apply_filters sp today (args\<lparr>a_expired := None\<rparr>) ms)"
  by (rule filter_where_split) (auto simp: where_clause_def assms state_cond_def)

lemma filter_expired:
  assumes "strip (or_empty (a_expired args)) = lit ''expired''"
  shows "apply_filters sp today args ms =
     filter (\<lambda>m. case m_expiry_date m of None \<Rightarrow> False | Some d \<Rightarrow> d < today)
       (apply_filters sp today (args\<lparr>a_expired := None\<rparr>) ms)"
  by (rule filter_where_split) (auto simp: where_clause_def assms state_cond_def)

lemma exp_bound_drops_absent:
  assumes "m_expiry_date m = None"
    and "parse_date sp (a_exp_from args) \<noteq> None \<or> parse_date sp (a_exp_to args) \<noteq> None"
  shows "m \<notin> set (apply_filters sp today args ms)"
  using assms by (auto simp: apply_filters_where where_clause_def bound_cond_def)

text \<open>
  C2. For every collection, every value of today and every request, the criterion
  \<^verbatim>\<open>expired=active\<close> keeps, of the members the other criteria keep, exactly those whose
  expiry date is absent or not before today, and \<^verbatim>\<open>expired=expired\<close> exactly those whose
  expiry date is present and before today; alone, each keeps exactly those members of
  the collection. A member with no expiry date is therefore kept by "active" and dropped
  by "expired", and it is dropped by every request with an \<^verbatim>\<open>exp_from\<close> or \<^verbatim>\<open>exp_to\<close>
  bound that parses.
\<close>

theorem expiry_state_filter:
  "(strip (or_empty (a_expired args)) = lit ''active'' \<longrightarrow>
      apply_filters sp today args ms =
        filter (\<lambda>m. case m_expiry_date m of None \<Rightarrow> True | Some d \<Rightarrow> today \<le> d)
          (apply_filters sp today (args\<lparr>a_expired := None\<rparr>) ms)) \<and>
   (strip (or_empty (a_expired args)) = lit ''expired'' \<longrightarrow>
      apply_filters sp today args ms =
        filter (\<lambda>m. case m_expiry_date m of None \<Rightarrow> False | Some d \<Rightarrow> d < today)
          (apply_filters sp today (args\<lparr>a_expired := None\<rparr>) ms)) \<and>
   apply_filters sp today (no_args\<lparr>a_expired := Some (lit ''active'')\<rparr>) ms =
     filter (\<lambda>m. case m_expiry_date m of None \<Rightarrow> True | Some d \<Rightarrow> today \<le> d) ms \<and>
   apply_filters sp today (no_args\<lparr>a_expired := Some (lit ''expired'')\<rparr>) ms =
     filter (\<lambda>m. case m_expiry_date m of None \<Rightarrow> False | Some d \<Rightarrow> d < today) ms \<and>
   (m_expiry_date m = None \<and>
    (parse_date sp (a_exp_from args) \<noteq> None \<or> parse_date sp (a_exp_to args) \<noteq> None) \<longrightarrow>
      m \<notin> set (apply_filters sp today args ms))"
proof -
  have s: "strip (lit ''active'') = lit ''active''" "strip (lit ''expired'') = lit ''expired''"
    by (simp_all add: strip_def lit_def isspace_def)
  have a: "no_args\<lparr>a_expired := Some (lit ''active''), a_expired := None\<rparr> = no_args"
    "no_args\<lparr>a_expired := Some (lit ''expired''), a_expired := None\<rparr> = no_args"
    by (simp_all add: no_args_def)
  have "apply_filters sp today (no_args\<lparr>a_expired := Some (lit ''active'')\<rparr>) ms =
     filter (\<lambda>m. case m_expiry_date m of None \<Rightarrow> True | Some d \<Rightarrow> today \<le> d) ms"
    using filter_active [of "no_args\<lparr>a_expired := Some (lit ''active'')\<rparr>" sp today ms]
    by (simp add: s a no_args_all)
  moreover have "apply_filters sp today (no_args\<lparr>a_expired := Some (lit ''expired'')\<rparr>) ms =
     filter (\<lambda>m. case m_expiry_date m of None \<Rightarrow> False | Some d \<Rightarrow> d < today) ms"
    using filter_expired [of "no_args\<lparr>a_expired := Some (lit ''expired'')\<rparr>" sp today ms]
    by (simp add: s a no_args_all)
  ultimately show ?thesis
    using filter_active [of args sp today ms] filter_expired [of args sp today ms]
      exp_bound_drops_absent [of m sp args today ms]
    by blast
qed

text \<open>
  The theorem on Kim and Lee with today 2024-06-01: "active" (here with blanks around it)
  keeps Lee only, "expired" keeps Kim only, and the bound \<^verbatim>\<open>exp_from=2023-01-01\<close> drops
  Lee, who has no expiry date.
\<close>

theorem expiry_state_filter_witness:
  "strip (or_empty (a_expired (no_args\<lparr>a_expired := Some (lit '' active '')\<rparr>))) = lit ''active'' \<and>
   apply_filters strptime_ymd 739038 (no_args\<lparr>a_expired := Some (lit '' active '')\<rparr>)
     [ex_kim, ex_lee] = [ex_lee] \<and>
   strip (or_empty (a_expired (no_args\<lparr>a_expired := Some (lit ''expired'')\<rparr>))) = lit ''expired'' \<and>
   apply_filters strptime_ymd 739038 (no_args\<lparr>a_expired := Some (lit ''expired'')\<rparr>)
     [ex_kim, ex_lee] = [ex_kim] \<and>
   m_expiry_date ex_lee = None \<and>
   parse_date strptime_ymd (a_exp_from (no_args\<lparr>a_exp_from := Some (lit ''2023-01-01'')\<rparr>)) = Some 738521 \<and>
   ex_lee \<notin> set (apply_filters strptime_ymd 739038
     (no_args\<lparr>a_exp_from := Some (lit ''2023-01-01'')\<rparr>) [ex_kim, ex_lee])"
proof -
  let ?a1 = "no_args\<lparr>a_expired := Some (lit '' active '')\<rparr>"
  let ?a2 = "no_args\<lparr>a_expired := Some (lit ''expired'')\<rparr>"
  let ?a3 = "no_args\<lparr>a_exp_from := Some (lit ''2023-01-01'')\<rparr>"
  have h1: "strip (or_empty (a_expired ?a1)) = lit ''active''"
    by (simp add: strip_def lit_def isspace_def)
  have h2: "strip (or_empty (a_expired ?a2)) = lit ''expired''"
    by (simp add: strip_def lit_def isspace_def)
  have h3: "m_expiry_date ex_lee = None"
    by (simp add: ex_lee_def)
  have h4: "parse_date strptime_ymd (a_exp_from ?a3) = Some 738521"
    by (simp add: parse_2023)
  have n: "?a1\<lparr>a_expired := None\<rparr> = no_args" "?a2\<lparr>a_expired := None\<rparr> = no_args"
    by (simp_all add: no_args_def)
  have r1: "apply_filters strptime_ymd 739038 ?a1 [ex_kim, ex_lee] = [ex_lee]"
    using expiry_state_filter [of ?a1 strptime_ymd 739038 "[ex_kim, ex_lee]"] h1
    by (simp add: n no_args_all ex_kim_def ex_lee_def)
  have r2: "apply_filters strptime_ymd 739038 ?a2 [ex_kim, ex_lee] = [ex_kim]"
    using expiry_state_filter [of ?a2 strptime_ymd 739038 "[ex_kim, ex_lee]"] h2
    by (simp add: n no_args_all ex_kim_def ex_lee_def)
  have r3: "ex_lee \<notin> set (apply_filters strptime_ymd 739038 ?a3 [ex_kim, ex_lee])"
    using expiry_state_filter [of ?a3 strptime_ymd 739038 "[ex_kim, ex_lee]" ex_lee] h3 h4
    by simp
  from h1 h2 h3 h4 r1 r2 r3 show ?thesis
    by blast
qed

section \<open>The membership-class criterion\<close>

lemma filter_class:
  assumes "strip (or_empty (a_membership_type args)) \<noteq> []"
  shows "apply_filters sp today args ms =
     filter (\<lambda>m. m_membership_type m = strip (or_empty (a_membership_type args)))
       (apply_filters sp today (args\<lparr>a_membership_type := None\<rparr>) ms)"
  by (rule filter_where_split) (auto simp: where_clause_def assms class_cond_def)

lemma strip_Gold: "strip (lit ''Gold'') = lit ''Gold''"
  by (simp add: strip_def lit_def isspace_def)

text \<open>
  C3 (as the code has it). A membership-class criterion that is not blank is an
  exact-match constraint, whether or not it names a class of the fixed set: the filter
  keeps, of the members the other criteria keep, exactly those whose class equals the
  stripped criterion. The filter is a total function: no error is raised.
\<close>

theorem class_filter_exact:
  "strip (or_empty (a_membership_type args)) \<noteq> [] \<longrightarrow>
     apply_filters sp today args ms =
       filter (\<lambda>m. m_membership_type m = strip (or_empty (a_membership_type args)))
         (apply_filters sp today (args\<lparr>a_membership_type := None\<rparr>) ms)"
  using filter_class by blast

text \<open>
  On Kim (monthly) and Lee (class \<^verbatim>\<open>VIP\<close>): the criterion \<^verbatim>\<open>Gold\<close> keeps nobody, the
  monthly class keeps Kim.
\<close>

theorem class_filter_exact_witness:
  "strip (or_empty (a_membership_type (no_args\<lparr>a_membership_type := Some (lit ''Gold'')\<rparr>))) \<noteq> [] \<and>
   apply_filters strptime_ymd 739038 (no_args\<lparr>a_membership_type := Some (lit ''Gold'')\<rparr>)
     [ex_kim, ex_lee] = [] \<and>
   strip (or_empty (a_membership_type (no_args\<lparr>a_membership_type := Some monthly\<rparr>))) \<noteq> [] \<and>
   apply_filters strptime_ymd 739038 (no_args\<lparr>a_membership_type := Some monthly\<rparr>)
     [ex_kim, ex_lee] = [ex_kim]"
proof -
  let ?a1 = "no_args\<lparr>a_membership_type := Some (lit ''Gold'')\<rparr>"
  let ?a2 = "no_args\<lparr>a_membership_type := Some monthly\<rparr>"
  have s: "strip (or_empty (a_membership_type ?a1)) = lit ''Gold''"
    "strip (or_empty (a_membership_type ?a2)) = monthly"
    by (simp_all add: strip_def lit_def isspace_def monthly_def)
  have h: "strip (or_empty (a_membership_type ?a1)) \<noteq> []"
    "strip (or_empty (a_membership_type ?a2)) \<noteq> []"
    unfolding s by (simp_all add: lit_def monthly_def)
  have n: "?a1\<lparr>a_membership_type := None\<rparr> = no_args" "?a2\<lparr>a_membership_type := None\<rparr> = no_args"
    by (simp_all add: no_args_def)
  have r1: "apply_filters strptime_ymd 739038 ?a1 [ex_kim, ex_lee] = []"
    using class_filter_exact [of ?a1 strptime_ymd 739038 "[ex_kim, ex_lee]"] h(1)
    unfolding s n no_args_all
    by (simp add: ex_kim_def ex_lee_def lit_def monthly_def)
  have r2: "apply_filters strptime_ymd 739038 ?a2 [ex_kim, ex_lee] = [ex_kim]"
    using class_filter_exact [of ?a2 strptime_ymd 739038 "[ex_kim, ex_lee]"] h(2)
    unfolding s n no_args_all
    by (simp add: ex_kim_def ex_lee_def lit_def monthly_def)
  from h r1 r2 show ?thesis by blast
qed

text \<open>
  C3 as the specification states it fails: \<^verbatim>\<open>Gold\<close> is not blank and not one of the four
  classes, and the filter with it returns no member, while the filter without a class
  criterion returns both.
\<close>

theorem unknown_class_filter_counterexample:
  "strip (lit ''Gold'') \<noteq> [] \<and>
   lit ''Gold'' \<noteq> monthly \<and> lit ''Gold'' \<noteq> quarterly \<and> lit ''Gold'' \<noteq> yearly \<and>
   lit ''Gold'' \<noteq> garden_box_only \<and>
   apply_filters strptime_ymd 739038 (no_args\<lparr>a_membership_type := Some (lit ''Gold'')\<rparr>)
     [ex_kim, ex_lee] = [] \<and>
   apply_filters strptime_ymd 739038 (no_args\<lparr>a_membership_type := None\<rparr>)
     [ex_kim, ex_lee] = [ex_kim, ex_lee]"
proof -
  let ?a1 = "no_args\<lparr>a_membership_type := Some (lit ''Gold'')\<rparr>"
  have n: "?a1\<lparr>a_membership_type := None\<rparr> = no_args" "no_args\<lparr>a_membership_type := None\<rparr> = no_args"
    by (simp_all add: no_args_def)
  have "apply_filters strptime_ymd 739038 ?a1 [ex_kim, ex_lee] = []"
    using filter_class [of ?a1 strptime_ymd 739038 "[ex_kim, ex_lee]"]
    unfolding n no_args_all
    by (simp add: strip_Gold) (simp add: ex_kim_def ex_lee_def lit_def monthly_def)
  then show ?thesis
    by (simp add: n no_args_all strip_Gold)
      (simp add: lit_def monthly_def quarterly_def yearly_def garden_box_only_def)
qed

section \<open>Malformed date bounds\<close>

lemma parse_date_raises: "sp s = Inl e \<Longrightarrow> parse_date sp (Some s) = None"
  by (simp add: parse_date_def)

lemma parse_date_None [simp]: "parse_date sp None = None"
  by (simp add: parse_date_def)

lemma strptime_bad:
  "strptime_ymd (lit ''tomorrow'') = Inl ValueError"
  "strptime_ymd (lit ''2024-13-01'') = Inl ValueError"
  "strptime_ymd (lit ''2024-02-30'') = Inl ValueError"
  "strptime_ymd (lit ''31/12/2024'') = Inl ValueError"
  by (simp_all add: lit_def strptime_ymd_def is_digit_def digit_def days_in_month_def
      DAYS_IN_MONTH_def is_leap_def)

text \<open>
  C5. A date bound whose string the parser rejects is not applied: for each of
  \<^verbatim>\<open>join_from\<close>, \<^verbatim>\<open>join_to\<close>, \<^verbatim>\<open>exp_from\<close> and \<^verbatim>\<open>exp_to\<close> the filter returns what it returns
  with that bound absent. The parser's exception is caught in \<^verbatim>\<open>parse_date\<close>, which
  returns \<^verbatim>\<open>None\<close>, and the filter is a total function: no error is raised.
\<close>

theorem malformed_bound_ignored:
  "(a_join_from args = Some s1 \<and> sp s1 = Inl e1 \<longrightarrow>
      apply_filters sp today args ms = apply_filters sp today (args\<lparr>a_join_from := None\<rparr>) ms) \<and>
   (a_join_to args = Some s2 \<and> sp s2 = Inl e2 \<longrightarrow>
      apply_filters sp today args ms = apply_filters sp today (args\<lparr>a_join_to := None\<rparr>) ms) \<and>
   (a_exp_from args = Some s3 \<and> sp s3 = Inl e3 \<longrightarrow>
      apply_filters sp today args ms = apply_filters sp today (args\<lparr>a_exp_from := None\<rparr>) ms) \<and>
   (a_exp_to args = Some s4 \<and> sp s4 = Inl e4 \<longrightarrow>
      apply_filters sp today args ms = apply_filters sp today (args\<lparr>a_exp_to := None\<rparr>) ms) \<and>
   (sp s = Inl e \<longrightarrow> parse_date sp (Some s) = None)"
proof (intro conjI impI)
  assume "a_join_from args = Some s1 \<and> sp s1 = Inl e1"
  then have "parse_date sp (a_join_from args) = None"
    by (simp add: parse_date_raises)
  then show "apply_filters sp today args ms = apply_filters sp today (args\<lparr>a_join_from := None\<rparr>) ms"
    by (simp add: apply_filters_where where_clause_def cong: filter_cong)
next
  assume "a_join_to args = Some s2 \<and> sp s2 = Inl e2"
  then have "parse_date sp (a_join_to args) = None"
    by (simp add: parse_date_raises)
  then show "apply_filters sp today args ms = apply_filters sp today (args\<lparr>a_join_to := None\<rparr>) ms"
    by (simp add: apply_filters_where where_clause_def cong: filter_cong)
next
  assume "a_exp_from args = Some s3 \<and> sp s3 = Inl e3"
  then have "parse_date sp (a_exp_from args) = None"
    by (simp add: parse_date_raises)
  then show "apply_filters sp today args ms = apply_filters sp today (args\<lparr>a_exp_from := None\<rparr>) ms"
    by (simp add: apply_filters_where where_clause_def cong: filter_cong)
next
  assume "a_exp_to args = Some s4 \<and> sp s4 = Inl e4"
  then have "parse_date sp (a_exp_to args) = None"
    by (simp add: parse_date_raises)
  then show "apply_filters sp today args ms = apply_filters sp today (args\<lparr>a_exp_to := None\<rparr>) ms"
    by (simp add: apply_filters_where where_clause_def cong: filter_cong)
next
  assume "sp s = Inl e"
  then show "parse_date sp (Some s) = None"
    by (rule parse_date_raises)
qed

text \<open>
  Four strings that are not dates, one per bound: each request returns the whole
  collection.
\<close>

theorem malformed_bound_ignored_witness:
  "a_join_from (no_args\<lparr>a_join_from := Some (lit ''tomorrow'')\<rparr>) = Some (lit ''tomorrow'') \<and>
   strptime_ymd (lit ''tomorrow'') = Inl ValueError \<and>
   apply_filters strptime_ymd 739038 (no_args\<lparr>a_join_from := Some (lit ''tomorrow'')\<rparr>)
     [ex_kim, ex_lee] = [ex_kim, ex_lee] \<and>
   a_join_to (no_args\<lparr>a_join_to := Some (lit ''2024-13-01'')\<rparr>) = Some (lit ''2024-13-01'') \<and>
   strptime_ymd (lit ''2024-13-01'') = Inl ValueError \<and>
   apply_filters strptime_ymd 739038 (no_args\<lparr>a_join_to := Some (lit ''2024-13-01'')\<rparr>)
     [ex_kim, ex_lee] = [ex_kim, ex_lee] \<and>
   a_exp_from (no_args\<lparr>a_exp_from := Some (lit ''2024-02-30'')\<rparr>) = Some (lit ''2024-02-30'') \<and>
   strptime_ymd (lit ''2024-02-30'') = Inl ValueError \<and>
   apply_filters strptime_ymd 739038 (no_args\<lparr>a_exp_from := Some (lit ''2024-02-30'')\<rparr>)
     [ex_kim, ex_lee] = [ex_kim, ex_lee] \<and>
   a_exp_to (no_args\<lparr>a_exp_to := Some (lit ''31/12/2024'')\<rparr>) = Some (lit ''31/12/2024'') \<and>
   strptime_ymd (lit ''31/12/2024'') = Inl ValueError \<and>
   apply_filters strptime_ymd 739038 (no_args\<lparr>a_exp_to := Some (lit ''31/12/2024'')\<rparr>)
     [ex_kim, ex_lee] = [ex_kim, ex_lee]"
proof -
  let ?a1 = "no_args\<lparr>a_join_from := Some (lit ''tomorrow'')\<rparr>"
  let ?a2 = "no_args\<lparr>a_join_to := Some (lit ''2024-13-01'')\<rparr>"
  let ?a3 = "no_args\<lparr>a_exp_from := Some (lit ''2024-02-30'')\<rparr>"
  let ?a4 = "no_args\<lparr>a_exp_to := Some (lit ''31/12/2024'')\<rparr>"
  let ?ms = "[ex_kim, ex_lee]"
  have n: "?a1\<lparr>a_join_from := None\<rparr> = no_args" "?a2\<lparr>a_join_to := None\<rparr> = no_args"
    "?a3\<lparr>a_exp_from := None\<rparr> = no_args" "?a4\<lparr>a_exp_to := None\<rparr> = no_args"
    by (simp_all add: no_args_def)
  have h1: "a_join_from ?a1 = Some (lit ''tomorrow'') \<and> strptime_ymd (lit ''tomorrow'') = Inl ValueError"
    by (simp add: strptime_bad)
  have h2: "a_join_to ?a2 = Some (lit ''2024-13-01'') \<and> strptime_ymd (lit ''2024-13-01'') = Inl ValueError"
    by (simp add: strptime_bad)
  have h3: "a_exp_from ?a3 = Some (lit ''2024-02-30'') \<and> strptime_ymd (lit ''2024-02-30'') = Inl ValueError"
    by (simp add: strptime_bad)
  have h4: "a_exp_to ?a4 = Some (lit ''31/12/2024'') \<and> strptime_ymd (lit ''31/12/2024'') = Inl ValueError"
    by (simp add: strptime_bad)
  have r1: "apply_filters strptime_ymd 739038 ?a1 ?ms = ?ms"
    using malformed_bound_ignored [of ?a1 "lit ''tomorrow''" strptime_ymd ValueError 739038 ?ms] h1
    by (simp add: n no_args_all)
  have r2: "apply_filters strptime_ymd 739038 ?a2 ?ms = ?ms"
    using malformed_bound_ignored [of ?a2 _ strptime_ymd _ 739038 ?ms "lit ''2024-13-01''" ValueError] h2
    by (simp add: n no_args_all)
  have r3: "apply_filters strptime_ymd 739038 ?a3 ?ms = ?ms"
    using malformed_bound_ignored [of ?a3 _ strptime_ymd _ 739038 ?ms _ _ "lit ''2024-02-30''" ValueError] h3
    by (simp add: n no_args_all)
  have r4: "apply_filters strptime_ymd 739038 ?a4 ?ms = ?ms"
    using malformed_bound_ignored [of ?a4 _ strptime_ymd _ 739038 ?ms _ _ _ _ "lit ''31/12/2024''" ValueError] h4
    by (simp add: n no_args_all)
  from h1 h2 h3 h4 r1 r2 r3 r4 show ?thesis
    by blast
qed

section \<open>Listing and export\<close>






section \<open>Deletion\<close>

text \<open>
  For an id that the database can hold and that no row has, the request is answered with
  the not-found failure (HTTP 404), and the state, the table included, is unchanged.
\<close>

lemma delete_missing_id_in_range:
  assumes "member_id \<le> SQLITE_MAX_INTEGER"
    and "member_id \<notin> set (map m_id (db_members st))"
  shows "delete_member args member_id st = Inr (st, Abort_404)"
proof -
  from assms(2) have "find (\<lambda>m. m_id m = member_id) (db_members st) = None"
    by (auto simp: find_None_iff)
  with assms(1) show ?thesis
    by (simp add: delete_member_def)
qed

text \<open>
  With Kim (id 1) and Lee (id 2) stored, deleting id 7 aborts with 404 and changes
  nothing; deleting id 1 removes Kim, flashes the notice and redirects.
\<close>

lemma delete_examples:
  "delete_member no_args 7 \<lparr>db_members = [ex_kim, ex_lee], flashes = []\<rparr> =
     Inr (\<lparr>db_members = [ex_kim, ex_lee], flashes = []\<rparr>, Abort_404)"
  "delete_member no_args 1 \<lparr>db_members = [ex_kim, ex_lee], flashes = []\<rparr> =
     Inr (\<lparr>db_members = [ex_lee], flashes = [msg_deleted]\<rparr>, Redirect_index (Some no_args))"
  by (simp_all add: delete_member_def SQLITE_MAX_INTEGER_def flash_def ex_kim_def ex_lee_def)

text \<open>
  C7 at a failing input. The id 9223372036854775808 (2^63) is the id of no row, and the
  route accepts it. Binding it as the parameter of the lookup raises \<^verbatim>\<open>OverflowError\<close>, so
  the request ends in that exception and not in the not-found failure that
  \<^verbatim>\<open>get_or_404\<close> gives every other absent id (\<open>delete_missing_id_in_range\<close>).
\<close>

theorem delete_huge_id_overflow:
  "9223372036854775808 \<notin>
     set (map m_id (db_members \<lparr>db_members = [ex_kim, ex_lee], flashes = []\<rparr>)) \<and>
   delete_member no_args 9223372036854775808 \<lparr>db_members = [ex_kim, ex_lee], flashes = []\<rparr> =
     Inl OverflowError"
  by (simp add: delete_member_def SQLITE_MAX_INTEGER_def ex_kim_def ex_lee_def)

section \<open>Creation\<close>

text \<open>
  What \<open>index_post\<close> does once an expiry date was entered, and what it does when a
  required field is missing.
\<close>

lemma index_post_explicit:
  assumes "parse_date sp (f_expiry_date form) = Some E"
  shows "index_post sp now args form st =
     (case parse_date sp (f_join_date form) of
        None \<Rightarrow> Inr (flash msg_required st, Redirect_index None)
      | Some jd \<Rightarrow>
          if strip (or_empty (f_name form)) = [] \<or> strip (or_empty (f_membership_type form)) = []
          then Inr (flash msg_required st, Redirect_index None)
          else Inr (flash msg_registered (st\<lparr>db_members := db_members st @
                 [\<lparr>m_id = next_id (db_members st), m_name = strip (or_empty (f_name form)),
                   m_contact = none_if_empty (strip (or_empty (f_contact form))),
                   m_membership_type = strip (or_empty (f_membership_type form)),
                   m_join_date = jd, m_expiry_date = Some E,
                   m_source = none_if_empty (strip (or_empty (f_source form))),
                   m_note = none_if_empty (strip (or_empty (f_note form))),
                   m_created_at = Some now, m_updated_at = Some now\<rparr>]\<rparr>),
                 Redirect_index (Some args)))"
  by (auto simp: index_post_def Let_def assms split: option.splits)

lemma index_post_missing_field:
  assumes "strip (or_empty (f_name form)) = [] \<or> strip (or_empty (f_membership_type form)) = [] \<or>
      parse_date sp (f_join_date form) = None"
  shows "index_post sp now args form st =
     (case parse_date sp (f_expiry_date form) of
        Some e \<Rightarrow> Inr (flash msg_required st, Redirect_index None)
      | None \<Rightarrow>
          (case auto_expiry (parse_date sp (f_join_date form))
                  (strip (or_empty (f_membership_type form))) of
             Inl err \<Rightarrow> Inl err
           | Inr x \<Rightarrow> Inr (flash msg_required st, Redirect_index None)))"
  using assms by (auto simp: index_post_def Let_def split: option.splits sum.splits)

lemma parse_dates:
  "parse_date strptime_ymd (Some (lit ''9999-12-31'')) = Some 3652059"
  "parse_date strptime_ymd (Some (lit ''2024-03-01'')) = Some 738946"
  "parse_date strptime_ymd (Some (lit ''2024-01-01'')) = Some 738886"
  by (simp_all add: parse_date_def lit_def strptime_ymd_def is_digit_def digit_def
      days_in_month_def DAYS_IN_MONTH_def ymd2ord_def days_before_year_def days_before_month_def
      DAYS_BEFORE_MONTH_def is_leap_def)

lemma strip_words:
  "strip (lit ''Park'') = lit ''Park''" "strip monthly = monthly"
  "lit ''Park'' \<noteq> []" "monthly \<noteq> []"
  by (simp_all add: strip_def lit_def isspace_def monthly_def)

lemma none_if_empty_simps [simp]: "none_if_empty [] = None" "s \<noteq> [] \<Longrightarrow> none_if_empty s = Some s"
  by (simp_all add: none_if_empty_def)

lemma next_id_ex: "next_id [ex_kim, ex_lee] = 3"
  by (simp add: next_id_def ex_kim_def ex_lee_def)

text \<open>
  C9. When the form carries an expiry date \<open>E\<close>, the calculator is not called: a request
  with a name, a class and a join date stores exactly one new member, and its expiry date
  is \<open>E\<close>, whatever the join date and the class are; a request that lacks one of the three
  is rejected with the notice and stores nothing.
\<close>

theorem explicit_expiry_stored:
  "parse_date sp (f_expiry_date form) = Some E \<longrightarrow>
     (strip (or_empty (f_name form)) \<noteq> [] \<and> strip (or_empty (f_membership_type form)) \<noteq> [] \<and>
      parse_date sp (f_join_date form) = Some J \<longrightarrow>
        (\<exists>m. index_post sp now args form st =
               Inr (flash msg_registered (st\<lparr>db_members := db_members st @ [m]\<rparr>),
                    Redirect_index (Some args)) \<and>
             m_expiry_date m = Some E \<and> m_join_date m = J \<and>
             m_membership_type m = strip (or_empty (f_membership_type form)))) \<and>
     (strip (or_empty (f_name form)) = [] \<or> strip (or_empty (f_membership_type form)) = [] \<or>
      parse_date sp (f_join_date form) = None \<longrightarrow>
        index_post sp now args form st = Inr (flash msg_required st, Redirect_index None))"
proof (intro impI conjI)
  assume e: "parse_date sp (f_expiry_date form) = Some E"
  {
    assume "strip (or_empty (f_name form)) \<noteq> [] \<and> strip (or_empty (f_membership_type form)) \<noteq> [] \<and>
      parse_date sp (f_join_date form) = Some J"
    then show "\<exists>m. index_post sp now args form st =
               Inr (flash msg_registered (st\<lparr>db_members := db_members st @ [m]\<rparr>),
                    Redirect_index (Some args)) \<and>
             m_expiry_date m = Some E \<and> m_join_date m = J \<and>
             m_membership_type m = strip (or_empty (f_membership_type form))"
      by (simp add: index_post_explicit [OF e]) (rule exI, rule conjI, rule refl, simp)
  next
    assume "strip (or_empty (f_name form)) = [] \<or> strip (or_empty (f_membership_type form)) = [] \<or>
      parse_date sp (f_join_date form) = None"
    then show "index_post sp now args form st = Inr (flash msg_required st, Redirect_index None)"
      by (auto simp: index_post_explicit [OF e] split: option.splits)
  }
qed

text \<open>
  Park, monthly, joining on 9999-12-31 with the expiry date 2024-03-01 (day 738946): the
  stored expiry date is the one entered, although it is before the join date and
  although 30 days after the join date is no date. The same form without the name is
  rejected with the notice.
\<close>

theorem explicit_expiry_stored_witness:
  "parse_date strptime_ymd (f_expiry_date
     (no_form\<lparr>f_name := Some (lit ''Park''), f_membership_type := Some monthly,
        f_join_date := Some (lit ''9999-12-31''), f_expiry_date := Some (lit ''2024-03-01'')\<rparr>))
     = Some 738946 \<and>
   index_post strptime_ymd ex_now no_args
     (no_form\<lparr>f_name := Some (lit ''Park''), f_membership_type := Some monthly,
        f_join_date := Some (lit ''9999-12-31''), f_expiry_date := Some (lit ''2024-03-01'')\<rparr>)
     \<lparr>db_members = [ex_kim, ex_lee], flashes = []\<rparr> =
     Inr (\<lparr>db_members = [ex_kim, ex_lee,
             \<lparr>m_id = 3, m_name = lit ''Park'', m_contact = None, m_membership_type = monthly,
              m_join_date = 3652059, m_expiry_date = Some 738946, m_source = None,
              m_note = None, m_created_at = Some ex_now, m_updated_at = Some ex_now\<rparr>],
           flashes = [msg_registered]\<rparr>, Redirect_index (Some no_args)) \<and>
   index_post strptime_ymd ex_now no_args
     (no_form\<lparr>f_membership_type := Some monthly,
        f_join_date := Some (lit ''9999-12-31''), f_expiry_date := Some (lit ''2024-03-01'')\<rparr>)
     \<lparr>db_members = [ex_kim, ex_lee], flashes = []\<rparr> =
     Inr (\<lparr>db_members = [ex_kim, ex_lee], flashes = [msg_required]\<rparr>, Redirect_index None)"
proof -
  let ?f1 = "no_form\<lparr>f_name := Some (lit ''Park''), f_membership_type := Some monthly,
        f_join_date := Some (lit ''9999-12-31''), f_expiry_date := Some (lit ''2024-03-01'')\<rparr>"
  let ?f2 = "no_form\<lparr>f_membership_type := Some monthly,
        f_join_date := Some (lit ''9999-12-31''), f_expiry_date := Some (lit ''2024-03-01'')\<rparr>"
  let ?st = "\<lparr>db_members = [ex_kim, ex_lee], flashes = []\<rparr>"
  have e1: "parse_date strptime_ymd (f_expiry_date ?f1) = Some 738946"
    and e2: "parse_date strptime_ymd (f_expiry_date ?f2) = Some 738946"
    by (simp_all add: parse_dates)
  have v: "strip (or_empty (f_name ?f1)) \<noteq> [] \<and> strip (or_empty (f_membership_type ?f1)) \<noteq> [] \<and>
      parse_date strptime_ymd (f_join_date ?f1) = Some 3652059"
    by (simp add: parse_dates strip_words)
  have i: "strip (or_empty (f_name ?f2)) = [] \<or> strip (or_empty (f_membership_type ?f2)) = [] \<or>
      parse_date strptime_ymd (f_join_date ?f2) = None"
    by (simp add: no_form_def)
  from explicit_expiry_stored [of strptime_ymd ?f1 738946 3652059 ex_now no_args ?st] e1 v
  obtain m where m: "index_post strptime_ymd ex_now no_args ?f1 ?st =
      Inr (flash msg_registered (?st\<lparr>db_members := db_members ?st @ [m]\<rparr>),
           Redirect_index (Some no_args))"
    and "m_expiry_date m = Some 738946"
    by blast
  have r1: "index_post strptime_ymd ex_now no_args ?f1 ?st =
     Inr (\<lparr>db_members = [ex_kim, ex_lee,
             \<lparr>m_id = 3, m_name = lit ''Park'', m_contact = None, m_membership_type = monthly,
              m_join_date = 3652059, m_expiry_date = Some 738946, m_source = None,
              m_note = None, m_created_at = Some ex_now, m_updated_at = Some ex_now\<rparr>],
           flashes = [msg_registered]\<rparr>, Redirect_index (Some no_args))"
    by (simp add: index_post_explicit [OF e1] parse_dates strip_words next_id_ex flash_def)
      (simp add: no_form_def)
  have r2: "index_post strptime_ymd ex_now no_args ?f2 ?st =
     Inr (\<lparr>db_members = [ex_kim, ex_lee], flashes = [msg_required]\<rparr>, Redirect_index None)"
  proof -
    from explicit_expiry_stored [of strptime_ymd ?f2 738946 0 ex_now no_args ?st] e2 i
    have "index_post strptime_ymd ex_now no_args ?f2 ?st =
        Inr (flash msg_required ?st, Redirect_index None)"
      by blast
    then show ?thesis
      by (simp add: flash_def)
  qed
  from e1 r1 r2 m show ?thesis by blast
qed

text \<open>
  C6 at a failing input. The name is missing, the class is monthly, the join date is
  9999-12-31 and no expiry date is entered: the expiry date is derived before the
  required fields are checked, the addition raises \<^verbatim>\<open>OverflowError\<close>, and the request
  ends in that exception: no notice is flashed and no redirect to the listing is
  returned. (\<open>index_post_missing_field\<close> above gives every other case: the notice and the
  redirect, with the state otherwise unchanged.)
\<close>

theorem index_post_missing_name_overflow:
  "strip (or_empty (f_name (no_form\<lparr>f_membership_type := Some monthly,
       f_join_date := Some (lit ''9999-12-31'')\<rparr>))) = [] \<and>
   index_post strptime_ymd ex_now no_args
     (no_form\<lparr>f_membership_type := Some monthly, f_join_date := Some (lit ''9999-12-31'')\<rparr>)
     \<lparr>db_members = [ex_kim, ex_lee], flashes = []\<rparr> = Inl OverflowError"
proof -
  let ?f = "no_form\<lparr>f_membership_type := Some monthly, f_join_date := Some (lit ''9999-12-31'')\<rparr>"
  have n: "strip (or_empty (f_name ?f)) = []"
    by (simp add: no_form_def)
  have "parse_date strptime_ymd (f_expiry_date ?f) = None"
    by (simp add: no_form_def)
  moreover have "auto_expiry (parse_date strptime_ymd (f_join_date ?f))
      (strip (or_empty (f_membership_type ?f))) = Inl OverflowError"
    by (simp add: parse_dates strip_words auto_expiry_def map_of_DAYS_MAP_keys date_add_def
        MAXORDINAL_def)
  ultimately show ?thesis
    using n index_post_missing_field [of ?f strptime_ymd ex_now no_args]
    by simp
qed

section \<open>The CSV export of a note\<close>

lemma iso_dates:
  "date_isoformat 738886 = lit ''2024-01-01''"
  "date_isoformat 738916 = lit ''2024-01-31''"
  by (simp_all add: date_isoformat_def ord2ymd_def Let_def DAYS_BEFORE_MONTH_def DAYS_IN_MONTH_def
      zfill_def str_of_nat.simps lit_def)

lemma iso_now: "datetime_isoformat ex_now = lit ''2024-01-01T09:30:00''"
  by (simp add: datetime_isoformat_def iso_dates ex_now_def zfill_def str_of_nat.simps)
    (simp add: lit_def)

lemma replace_note: "replace [92, 110] [32] ex_note = ex_note"
  by (simp add: ex_note_def lit_def) (simp add: replace.simps)

lemma replace_backslash_n:
  "replace [92, 110] [32] (lit ''call'' @ [92, 110] @ lit ''back'') = lit ''call back''"
  by (simp add: lit_def) (simp add: replace.simps)

text \<open>
  C4 at a failing input. Park's note is \<^verbatim>\<open>call\<close>, a line feed, \<^verbatim>\<open>back\<close> (a note the creation
  form stores as it is: \<^verbatim>\<open>strip\<close> removes only the blanks around it). The export looks for
  the two characters backslash and \<^verbatim>\<open>n\<close>, finds none, and hands the note to the writer
  unchanged: the eighth cell still holds the line feed, and the record the writer
  produces holds it inside a quoted field, where the claim has a space. (A note with a
  backslash followed by \<^verbatim>\<open>n\<close> is what the export rewrites: \<open>replace_backslash_n\<close>.)
\<close>

theorem export_newline_not_replaced:
  "m_note ex_park = Some ex_note \<and> ex_note = lit ''call'' @ [10] @ lit ''back'' \<and>
   strip ex_note = ex_note \<and>
   export_row ex_park ! 7 = CStr (lit ''call'' @ [10] @ lit ''back'') \<and>
   writerow (export_row ex_park) =
     lit ''3,Park,,'' @ monthly @ lit '',2024-01-01,2024-01-31,,'' @
     [34] @ lit ''call'' @ [10] @ lit ''back'' @ [34] @
     lit '',2024-01-01T09:30:00,2024-01-01T09:30:00'' @ [13, 10]"
proof -
  have r: "export_row ex_park =
     [CInt 3, CStr (lit ''Park''), CStr [], CStr monthly, CStr (lit ''2024-01-01''),
      CStr (lit ''2024-01-31''), CStr [], CStr ex_note,
      CStr (lit ''2024-01-01T09:30:00''), CStr (lit ''2024-01-01T09:30:00'')]"
    by (simp add: export_row_def ex_park_def iso_dates iso_now replace_note)
  have w: "writerow (export_row ex_park) =
     lit ''3,Park,,'' @ monthly @ lit '',2024-01-01,2024-01-31,,'' @
     [34] @ lit ''call'' @ [10] @ lit ''back'' @ [34] @
     lit '',2024-01-01T09:30:00,2024-01-01T09:30:00'' @ [13, 10]"
    unfolding r
    by (simp add: lit_def monthly_def ex_note_def) 
      (simp add: writerow_def csv_field_def str_of_nat.simps Let_def)
  show ?thesis
    using w by (simp add: r) (simp add: ex_park_def ex_note_def strip_def lit_def isspace_def)
qed

section \<open>The text query\<close>



















end
